theory Spec2Isabelle
  imports Complex_Main "HOL-Library.Word" "HOL-Library.Multiset"
begin

section \<open>Data model\<close>

text \<open>
  The server keeps three collections (users, products, carts) in a document
  database and the uploaded images in a directory. Handlers are modelled as
  functions from the request and the state to a response and the new state.
  Document identifiers are the 12-byte ObjectIds of the database driver;
  \<open>toString()\<close> of an ObjectId is its rendering as 24 hexadecimal digits.
\<close>

type_synonym objectid = "96 word"

definition hexDigit :: "nat \<Rightarrow> char" where
  "hexDigit n = ''0123456789abcdef'' ! (n mod 16)"

definition oid_toString :: "objectid \<Rightarrow> string" where
  "oid_toString x = map (\<lambda>i. hexDigit (unat (drop_bit (4 * (23 - i)) x))) [0..<24]"

text \<open>JavaScript numbers are idealised as real numbers; \<open>NaN\<close> is \<open>None\<close>.\<close>

datatype form_number = Absent | NotNumeric | Numeric real

fun Number :: "form_number \<Rightarrow> real option" where
  "Number Absent = None"
| "Number NotNumeric = None"
| "Number (Numeric r) = Some r"

record storeInfo =
  si_name :: "string option"

record user =
  u_id :: objectid
  u_email :: string
  u_password :: string
  u_name :: string
  u_role :: string
  u_storeInfo :: "storeInfo option"

text \<open>
  The denormalized store snapshot written by product creation:
  \<open>store: { id: req.user._id, name: req.user.name || 'Unknown Seller' }\<close>.
\<close>

record storeSnapshot =
  st_id :: objectid
  st_name :: string

record product =
  p_id :: objectid
  p_name :: "string option"
  p_description :: "string option"
  p_price :: real
  p_image :: "string option"
  p_seller :: objectid
  p_store :: storeSnapshot
  p_createdAt :: int

text \<open>
  Modelled from the spec: the Product schema (models/Product) is not among the
  sources. Section 3 of the specification describes the store snapshot as an
  embedded object (id + display name); the create route writes it as
  \<open>{ id, name }\<close> and the per-seller query reads \<open>store.id\<close>. So
  \<open>product.store.toString()\<close> is the rendering of an object, JavaScript's
  \<open>[object Object]\<close> (a rendering by inspection would print braces and field names
  instead), and in no case the 24 hexadecimal digits of an ObjectId.
\<close>

definition store_toString :: "storeSnapshot \<Rightarrow> string" where
  "store_toString s = ''[object Object]''"

text \<open>\<open>req.file\<close> as the upload middleware leaves it: the file is on disk at \<open>f_path\<close>.\<close>

record upload_file =
  f_filename :: string
  f_path :: string

record product_form =
  pf_name :: "string option"
  pf_description :: "string option"
  pf_price :: form_number

datatype body =
    Message string
  | ProductJson product
  | ProductsJson "(product \<times> string option) list"
  | ErrorJson string string
  | JsonNull

record response =
  status :: nat
  body :: body

text \<open>
  What the handler cannot decide: the identifier of a new document, the clock,
  and whether the database accepts the one write the request makes.
\<close>

datatype db_result = DbOk | DbError string

record env =
  e_new_id :: objectid
  e_now :: int
  e_db :: db_result

text \<open>
  The state: the two collections, the files on disk, and the deletions that were
  requested with \<open>fs.unlink\<close> and have not completed yet.
\<close>

record state =
  s_users :: "user list"
  s_products :: "product list"
  s_files :: "string set"
  s_unlinks :: "string list"

section \<open>Database and file system operations\<close>

definition findById :: "objectid \<Rightarrow> product list \<Rightarrow> product option" where
  "findById pid ps = find (\<lambda>p. p_id p = pid) ps"

text \<open>
  \<open>fs.unlink(path, cb)\<close> is asynchronous: the call only requests the deletion and
  returns, and the handler goes on (to its response) without waiting. The deletion
  completes later, in any order with other requests: \<open>unlink_complete path err\<close> is that
  completion, where \<open>err\<close> is the error handed to the callback (\<open>None\<close> when the file was
  removed). The callbacks of the routes only log the error, so a failed deletion leaves
  the file where it is.
\<close>

definition fs_unlink :: "string \<Rightarrow> state \<Rightarrow> state" where
  "fs_unlink path s = s \<lparr> s_unlinks := s_unlinks s @ [path] \<rparr>"

definition unlink_complete :: "string \<Rightarrow> string option \<Rightarrow> state \<Rightarrow> state" where
  "unlink_complete path err s =
     (if path \<in> set (s_unlinks s)
      then s \<lparr> s_unlinks := remove1 path (s_unlinks s),
               s_files := (case err of None \<Rightarrow> s_files s - {path} | Some e \<Rightarrow> s_files s) \<rparr>
      else s)"

text \<open>
  \<open>new Product({...})\<close> followed by \<open>save()\<close>. A price that is \<open>NaN\<close> cannot be cast to the
  numeric price of the schema, and the identifier is a unique key; any other refusal
  (validation, connection) is the \<open>e_db\<close> of the environment.
\<close>

definition Product_save ::
  "env \<Rightarrow> string option \<Rightarrow> string option \<Rightarrow> real option \<Rightarrow> string \<Rightarrow> user \<Rightarrow> product list
    \<Rightarrow> string + (product \<times> product list)" where
  "Product_save env nm descr price imageUrl u ps =
    (case price of
       None \<Rightarrow> Inl ''Product validation failed: price: Cast to Number failed''
     | Some r \<Rightarrow>
        (case e_db env of
           DbError m \<Rightarrow> Inl m
         | DbOk \<Rightarrow>
            if list_ex (\<lambda>q. p_id q = e_new_id env) ps then Inl ''E11000 duplicate key error''
            else
              let p = \<lparr> p_id = e_new_id env, p_name = nm, p_description = descr, p_price = r,
                        p_image = Some imageUrl, p_seller = u_id u,
                        p_store = \<lparr> st_id = u_id u,
                                    st_name = (if u_name u = [] then ''Unknown Seller'' else u_name u) \<rparr>,
                        p_createdAt = e_now env \<rparr>
              in Inr (p, ps @ [p])))"

text \<open>\<open>String.prototype.replace(pattern, '')\<close> with a string pattern: the first occurrence goes.\<close>

fun remove_first :: "string \<Rightarrow> string \<Rightarrow> string" where
  "remove_first pat [] = []"
| "remove_first pat (c # cs) =
     (if pat \<noteq> [] \<and> take (length pat) (c # cs) = pat then drop (length pat) (c # cs)
      else c # remove_first pat cs)"

text \<open>
  Paths are written relative to the application directory \<open>path.join(__dirname, '..')\<close>,
  under which the upload directory is \<open>uploads\<close>; joining a segment drops its leading slashes.
\<close>

definition join_app :: "string \<Rightarrow> string" where
  "join_app rel = dropWhile (\<lambda>c. c = CHR ''/'') rel"

record updateData =
  ud_name :: "string option"
  ud_description :: "string option"
  ud_price :: form_number
  ud_image :: "string option"

text \<open>
  \<open>Product.findByIdAndUpdate(id, updateData, { new: true })\<close>: the fields present in
  \<open>updateData\<close> are set on the document with this identifier, the others stay; a price
  that is not a number is a cast error. The result is the updated document, or null.
\<close>

definition apply_updateData :: "updateData \<Rightarrow> product \<Rightarrow> product" where
  "apply_updateData ud p =
     p \<lparr> p_name := (case ud_name ud of None \<Rightarrow> p_name p | Some n \<Rightarrow> Some n),
         p_description := (case ud_description ud of None \<Rightarrow> p_description p | Some d \<Rightarrow> Some d),
         p_price := (case ud_price ud of Numeric r \<Rightarrow> r | _ \<Rightarrow> p_price p),
         p_image := (case ud_image ud of None \<Rightarrow> p_image p | Some i \<Rightarrow> Some i) \<rparr>"

fun update_first :: "objectid \<Rightarrow> (product \<Rightarrow> product) \<Rightarrow> product list \<Rightarrow> product list" where
  "update_first pid f [] = []"
| "update_first pid f (p # ps) = (if p_id p = pid then f p # ps else p # update_first pid f ps)"

definition findByIdAndUpdate ::
  "env \<Rightarrow> objectid \<Rightarrow> updateData \<Rightarrow> product list \<Rightarrow> string + (product option \<times> product list)" where
  "findByIdAndUpdate env pid ud ps =
    (if ud_price ud = NotNumeric then Inl ''Cast to Number failed for path price''
     else case e_db env of
       DbError m \<Rightarrow> Inl m
     | DbOk \<Rightarrow>
        let ps' = update_first pid (apply_updateData ud) ps
        in Inr (findById pid ps', ps'))"

fun remove_first_doc :: "objectid \<Rightarrow> product list \<Rightarrow> product list" where
  "remove_first_doc pid [] = []"
| "remove_first_doc pid (p # ps) = (if p_id p = pid then ps else p # remove_first_doc pid ps)"

definition Product_remove :: "env \<Rightarrow> product \<Rightarrow> product list \<Rightarrow> string + product list" where
  "Product_remove env p ps =
    (case e_db env of DbError m \<Rightarrow> Inl m | DbOk \<Rightarrow> Inr (remove_first_doc (p_id p) ps))"

text \<open>\<open>.populate('seller', 'name')\<close> joins the seller's name in (null when the user is gone).\<close>

definition populate_seller :: "user list \<Rightarrow> product \<Rightarrow> product \<times> string option" where
  "populate_seller us p = (p, map_option u_name (find (\<lambda>u. u_id u = p_seller p) us))"

text \<open>\<open>.sort({ createdAt: -1 })\<close>: newest first.\<close>

definition sort_newest :: "product list \<Rightarrow> product list" where
  "sort_newest ps = sort_key (\<lambda>p. - p_createdAt p) ps"

section \<open>Product routes (routes/products.js)\<close>

definition products_get_all :: "state \<Rightarrow> response" where
  "products_get_all s =
     \<lparr> status = 200, body = ProductsJson (map (populate_seller (s_users s)) (sort_newest (s_products s))) \<rparr>"

definition products_get_my_store :: "user \<Rightarrow> state \<Rightarrow> response" where
  "products_get_my_store u s =
     \<lparr> status = 200,
       body = ProductsJson (map (populate_seller (s_users s))
                (sort_newest (filter (\<lambda>p. st_id (p_store p) = u_id u) (s_products s)))) \<rparr>"

definition products_post ::
  "env \<Rightarrow> user \<Rightarrow> product_form \<Rightarrow> upload_file option \<Rightarrow> state \<Rightarrow> response \<times> state" where
  "products_post env u b file s =
    (case file of
       None \<Rightarrow> (\<lparr> status = 400, body = Message ''Please upload an image'' \<rparr>, s)
     | Some f \<Rightarrow>
        let imageUrl = ''/uploads/'' @ f_filename f in
        (case Product_save env (pf_name b) (pf_description b) (Number (pf_price b)) imageUrl u
                (s_products s) of
           Inr (savedProduct, ps') \<Rightarrow>
             (\<lparr> status = 201, body = ProductJson savedProduct \<rparr>, s \<lparr> s_products := ps' \<rparr>)
         | Inl msg \<Rightarrow>
             (\<lparr> status = 500, body = Message msg \<rparr>,
              fs_unlink (f_path f) s)))"

text \<open>
  The part of the update handler after its two guards: build \<open>updateData\<close>, remove the
  old image when a new one came (\<open>put_prepare\<close>), then write and answer (\<open>put_write\<close>).
\<close>

definition put_prepare ::
  "product \<Rightarrow> product_form \<Rightarrow> upload_file option \<Rightarrow> state \<Rightarrow> updateData \<times> state" where
  "put_prepare product b file s =
    (let updateData = \<lparr> ud_name = pf_name b, ud_description = pf_description b,
                         ud_price = pf_price b, ud_image = None \<rparr>
     in case file of
          None \<Rightarrow> (updateData, s)
        | Some f \<Rightarrow>
           (updateData \<lparr> ud_image := Some (''/uploads/'' @ f_filename f) \<rparr>,
            (case p_image product of
               None \<Rightarrow> s
             | Some img \<Rightarrow>
                if img = [] then s
                else fs_unlink (join_app (remove_first ''/api/products'' img)) s)))"

definition put_write ::
  "env \<Rightarrow> objectid \<Rightarrow> product \<Rightarrow> product_form \<Rightarrow> upload_file option \<Rightarrow> state \<Rightarrow> response \<times> state" where
  "put_write env pid product b file s =
    (let (updateData, s1) = put_prepare product b file s
     in case findByIdAndUpdate env pid updateData (s_products s1) of
          Inr (updatedProduct, ps') \<Rightarrow>
            (\<lparr> status = 200,
               body = (case updatedProduct of None \<Rightarrow> JsonNull | Some p \<Rightarrow> ProductJson p) \<rparr>,
             s1 \<lparr> s_products := ps' \<rparr>)
        | Inl msg \<Rightarrow> (\<lparr> status = 500, body = Message ''Server error'' \<rparr>, s1))"

definition products_put ::
  "env \<Rightarrow> user \<Rightarrow> objectid \<Rightarrow> product_form \<Rightarrow> upload_file option \<Rightarrow> state \<Rightarrow> response \<times> state" where
  "products_put env u pid b file s =
    (case findById pid (s_products s) of
       None \<Rightarrow> (\<lparr> status = 404, body = Message ''Product not found'' \<rparr>, s)
     | Some product \<Rightarrow>
        if store_toString (p_store product) \<noteq> oid_toString (u_id u)
        then (\<lparr> status = 403, body = Message ''Not authorized'' \<rparr>, s)
        else put_write env pid product b file s)"

definition delete_write :: "env \<Rightarrow> product \<Rightarrow> state \<Rightarrow> response \<times> state" where
  "delete_write env product s =
    (let s1 = (case p_image product of
                 None \<Rightarrow> s
               | Some img \<Rightarrow>
                  if img = [] then s
                  else fs_unlink (join_app (remove_first ''/api/products'' img)) s)
     in case Product_remove env product (s_products s1) of
          Inr ps' \<Rightarrow> (\<lparr> status = 200, body = Message ''Product removed'' \<rparr>, s1 \<lparr> s_products := ps' \<rparr>)
        | Inl msg \<Rightarrow> (\<lparr> status = 500, body = Message ''Server error'' \<rparr>, s1))"

definition products_delete :: "env \<Rightarrow> user \<Rightarrow> objectid \<Rightarrow> state \<Rightarrow> response \<times> state" where
  "products_delete env u pid s =
    (case findById pid (s_products s) of
       None \<Rightarrow> (\<lparr> status = 404, body = Message ''Product not found'' \<rparr>, s)
     | Some product \<Rightarrow>
        if store_toString (p_store product) \<noteq> oid_toString (u_id u)
        then (\<lparr> status = 403, body = Message ''Not authorized'' \<rparr>, s)
        else delete_write env product s)"

text \<open>The products a listing response carries, in order.\<close>

definition listed :: "response \<Rightarrow> product list" where
  "listed r = (case body r of ProductsJson xs \<Rightarrow> map fst xs | _ \<Rightarrow> [])"

section \<open>Sibling product routes (the two further copies of the products router)\<close>

text \<open>
  The first copy creates a product only for a seller; its failure answer carries the
  error's message beside a fixed text.
\<close>

definition part_001_post ::
  "env \<Rightarrow> user \<Rightarrow> product_form \<Rightarrow> upload_file option \<Rightarrow> state \<Rightarrow> response \<times> state" where
  "part_001_post env u b file s =
    (if u_role u \<noteq> ''seller''
     then (\<lparr> status = 403, body = Message ''Only sellers can create products'' \<rparr>, s)
     else case file of
       None \<Rightarrow> (\<lparr> status = 400, body = Message ''Please upload an image'' \<rparr>, s)
     | Some f \<Rightarrow>
        let imageUrl = ''/uploads/'' @ f_filename f in
        (case Product_save env (pf_name b) (pf_description b) (Number (pf_price b)) imageUrl u
                (s_products s) of
           Inr (product, ps') \<Rightarrow>
             (\<lparr> status = 201, body = ProductJson product \<rparr>, s \<lparr> s_products := ps' \<rparr>)
         | Inl msg \<Rightarrow>
             (\<lparr> status = 500, body = ErrorJson ''Error creating product'' msg \<rparr>,
              fs_unlink (f_path f) s)))"

text \<open>
  The second copy's update compares the seller reference, reads the price with
  \<open>Number\<close>, and removes the new upload when the write fails.
\<close>

definition part_001_put ::
  "env \<Rightarrow> user \<Rightarrow> objectid \<Rightarrow> product_form \<Rightarrow> upload_file option \<Rightarrow> state \<Rightarrow> response \<times> state" where
  "part_001_put env u pid b file s =
    (case findById pid (s_products s) of
       None \<Rightarrow> (\<lparr> status = 404, body = Message ''Product not found'' \<rparr>, s)
     | Some product \<Rightarrow>
        if oid_toString (p_seller product) \<noteq> oid_toString (u_id u)
        then (\<lparr> status = 403, body = Message ''Not authorized to update this product'' \<rparr>, s)
        else
         (let updateData0 = \<lparr> ud_name = pf_name b, ud_description = pf_description b,
                               ud_price = (case Number (pf_price b) of
                                             None \<Rightarrow> NotNumeric | Some r \<Rightarrow> Numeric r),
                               ud_image = None \<rparr>;
              (updateData, s1) =
                (case file of
                   None \<Rightarrow> (updateData0, s)
                 | Some f \<Rightarrow>
                    (updateData0 \<lparr> ud_image := Some (''/uploads/'' @ f_filename f) \<rparr>,
                     (case p_image product of
                        None \<Rightarrow> s
                      | Some img \<Rightarrow>
                         if img = [] then s
                         else fs_unlink (join_app img) s)))
          in (case findByIdAndUpdate env pid updateData (s_products s1) of
               Inr (updatedProduct, ps') \<Rightarrow>
                 (\<lparr> status = 200,
                    body = (case updatedProduct of None \<Rightarrow> JsonNull | Some p \<Rightarrow> ProductJson p) \<rparr>,
                  s1 \<lparr> s_products := ps' \<rparr>)
             | Inl msg \<Rightarrow>
                 (\<lparr> status = 500, body = Message ''Error updating product'' \<rparr>,
                  (case file of
                     None \<Rightarrow> s1
                   | Some f \<Rightarrow> fs_unlink (f_path f) s1)))))"

section \<open>States the product routes can reach\<close>

text \<open>
  The catalogue starts empty and changes only through the three writing routes; the
  user collection changes independently of them, and requested deletions complete at
  any time, with or without an error.
\<close>

inductive reachable :: "state \<Rightarrow> bool" where
  reach_init: "reachable \<lparr> s_users = us, s_products = [], s_files = fs, s_unlinks = [] \<rparr>"
| reach_users: "reachable s \<Longrightarrow> reachable (s \<lparr> s_users := us \<rparr>)"
| reach_post: "reachable s \<Longrightarrow> reachable (snd (products_post env u b file s))"
| reach_put: "reachable s \<Longrightarrow> reachable (snd (products_put env u pid b file s))"
| reach_delete: "reachable s \<Longrightarrow> reachable (snd (products_delete env u pid s))"
| reach_unlink: "reachable s \<Longrightarrow> reachable (unlink_complete path err s)"

section \<open>Authentication routes\<close>

text \<open>
  Characters are bytes. \<open>toLowerCase\<close> maps the letters \<open>A\<close> to \<open>Z\<close> to \<open>a\<close> to \<open>z\<close> and leaves
  every other byte as it is: \<open>String.prototype.toLowerCase\<close> on ASCII text. Letters beyond
  ASCII are outside the model.
\<close>

definition toLowerCase_char :: "char \<Rightarrow> char" where
  "toLowerCase_char c =
     (let n = (of_char c :: nat) in if 65 \<le> n \<and> n \<le> 90 then char_of (n + 32) else c)"

definition toLowerCase :: "string \<Rightarrow> string" where
  "toLowerCase s = map toLowerCase_char s"

text \<open>
  The test \<open>/^[^\s@]+@[^\s@]+\.[^\s@]+$/\<close>: a non-empty part without blank or \<open>@\<close>, an
  \<open>@\<close>, and a rest without blank or \<open>@\<close> that has a dot neither first nor last.
\<close>

definition is_space :: "char \<Rightarrow> bool" where
  "is_space c = ((of_char c :: nat) \<in> {9, 10, 11, 12, 13, 32})"

definition plain_char :: "char \<Rightarrow> bool" where
  "plain_char c = (\<not> is_space c \<and> c \<noteq> CHR ''@'')"

definition emailRegex_test :: "string \<Rightarrow> bool" where
  "emailRegex_test s =
     (let a = takeWhile (\<lambda>c. c \<noteq> CHR ''@'') s; r = dropWhile (\<lambda>c. c \<noteq> CHR ''@'') s
      in a \<noteq> [] \<and> list_all plain_char a \<and>
         (case r of
            [] \<Rightarrow> False
          | _ # d \<Rightarrow> list_all plain_char d \<and> CHR ''.'' \<in> set (butlast (tl d))))"

text \<open>A value of the request body is falsy when it is missing or the empty string.\<close>

definition falsy :: "string option \<Rightarrow> bool" where
  "falsy x = (case x of None \<Rightarrow> True | Some v \<Rightarrow> v = [])"

record register_form =
  rf_email :: "string option"
  rf_password :: "string option"
  rf_name :: "string option"
  rf_role :: "string option"
  rf_storeInfo :: "storeInfo option"

record login_form =
  lf_email :: "string option"
  lf_password :: "string option"

record user_view =
  v_id :: objectid
  v_name :: string
  v_email :: string
  v_role :: string
  v_storeInfo :: "storeInfo option"

datatype auth_body = AuthMessage string | AuthJson string user_view

record auth_response =
  a_status :: nat
  a_body :: auth_body

text \<open>
  The primitives behind the handlers: the password hash and its comparison (\<open>None\<close>
  when the comparison throws), the token signature, the new identifier, the database.
\<close>

record auth_env =
  ae_new_id :: objectid
  ae_db :: db_result
  ae_hash :: "string \<Rightarrow> string"
  ae_compare :: "string \<Rightarrow> string \<Rightarrow> bool option"
  ae_sign :: "objectid \<Rightarrow> string"

text \<open>
  Modelled from the spec: the User model (models/User) is not among the sources. By
  section 3 of the specification a user's identity is the email, unique and
  case-normalized, and the password is stored as a one-way hash. So the schema
  lower-cases the email wherever the model takes one: \<open>save()\<close> stores the email in lower
  case, hashes the password, and refuses a second document with the same email or
  identifier, and \<open>User.findOne({ email: v })\<close> is the first user whose stored email is the
  lower-case form of \<open>v\<close> (the normalization of the schema applies to the value of a query
  filter as it does to the value of a document).
\<close>

definition User_findOne :: "user list \<Rightarrow> string \<Rightarrow> user option" where
  "User_findOne us email = find (\<lambda>u. u_email u = toLowerCase email) us"

definition User_save ::
  "auth_env \<Rightarrow> string \<Rightarrow> string \<Rightarrow> string \<Rightarrow> string \<Rightarrow> storeInfo option \<Rightarrow> user list
     \<Rightarrow> string + (user \<times> user list)" where
  "User_save env email password name role si us =
    (case ae_db env of
       DbError m \<Rightarrow> Inl m
     | DbOk \<Rightarrow>
        if list_ex (\<lambda>u. u_email u = toLowerCase email \<or> u_id u = ae_new_id env) us
        then Inl ''E11000 duplicate key error''
        else
          let u = \<lparr> u_id = ae_new_id env, u_email = toLowerCase email,
                    u_password = ae_hash env password, u_name = name, u_role = role,
                    u_storeInfo = si \<rparr>
          in Inr (u, us @ [u]))"

definition view_of :: "user \<Rightarrow> user_view" where
  "view_of u = \<lparr> v_id = u_id u, v_name = u_name u, v_email = u_email u, v_role = u_role u,
                 v_storeInfo = u_storeInfo u \<rparr>"

definition auth_register ::
  "auth_env \<Rightarrow> register_form \<Rightarrow> user list \<Rightarrow> auth_response \<times> user list" where
  "auth_register env b us =
    (if falsy (rf_email b) \<or> falsy (rf_password b) \<or> falsy (rf_name b)
     then (\<lparr> a_status = 400, a_body = AuthMessage ''Please provide all required fields'' \<rparr>, us)
     else
       let email = (case rf_email b of Some v \<Rightarrow> v | None \<Rightarrow> []);
           password = (case rf_password b of Some v \<Rightarrow> v | None \<Rightarrow> []);
           name = (case rf_name b of Some v \<Rightarrow> v | None \<Rightarrow> [])
       in
       if \<not> emailRegex_test email
       then (\<lparr> a_status = 400, a_body = AuthMessage ''Please provide a valid email address'' \<rparr>, us)
       else if length password < 6
       then (\<lparr> a_status = 400,
               a_body = AuthMessage ''Password must be at least 6 characters long'' \<rparr>, us)
       else case User_findOne us email of
         Some existing \<Rightarrow> (\<lparr> a_status = 400, a_body = AuthMessage ''User already exists'' \<rparr>, us)
       | None \<Rightarrow>
          if rf_role b \<noteq> Some ''user'' \<and> rf_role b \<noteq> Some ''seller''
          then (\<lparr> a_status = 400, a_body = AuthMessage ''Invalid role specified'' \<rparr>, us)
          else if rf_role b = Some ''seller'' \<and>
                  (case rf_storeInfo b of None \<Rightarrow> True | Some si \<Rightarrow> falsy (si_name si))
          then (\<lparr> a_status = 400,
                  a_body = AuthMessage ''Store information is required for sellers'' \<rparr>, us)
          else
            let role = (case rf_role b of Some v \<Rightarrow> v | None \<Rightarrow> []) in
            (case User_save env email password name role
                    (if role = ''seller'' then rf_storeInfo b else None) us of
               Inl msg \<Rightarrow>
                 (\<lparr> a_status = 500, a_body = AuthMessage ''Server error during registration'' \<rparr>, us)
             | Inr (u, us') \<Rightarrow>
                 (\<lparr> a_status = 201, a_body = AuthJson (ae_sign env (u_id u)) (view_of u) \<rparr>, us')))"

definition auth_login :: "auth_env \<Rightarrow> login_form \<Rightarrow> user list \<Rightarrow> auth_response" where
  "auth_login env b us =
    (if falsy (lf_email b) \<or> falsy (lf_password b)
     then \<lparr> a_status = 400, a_body = AuthMessage ''Please provide email and password'' \<rparr>
     else
       let email = (case lf_email b of Some v \<Rightarrow> v | None \<Rightarrow> []);
           password = (case lf_password b of Some v \<Rightarrow> v | None \<Rightarrow> [])
       in case User_findOne us (toLowerCase email) of
         None \<Rightarrow> \<lparr> a_status = 400, a_body = AuthMessage ''Invalid credentials'' \<rparr>
       | Some u \<Rightarrow>
          (case ae_compare env password (u_password u) of
             None \<Rightarrow> \<lparr> a_status = 500, a_body = AuthMessage ''Error verifying credentials'' \<rparr>
           | Some isMatch \<Rightarrow>
              if \<not> isMatch
              then \<lparr> a_status = 400, a_body = AuthMessage ''Invalid credentials'' \<rparr>
              else \<lparr> a_status = 200, a_body = AuthJson (ae_sign env (u_id u)) (view_of u) \<rparr>))"

section \<open>Cart model\<close>

text \<open>
  A stored line item is a product reference and a quantity. \<open>getTotal\<close> reads
  \<open>item.product.price\<close>, so it runs on items whose reference has been populated with
  the product document; a reference to a product that is gone populates to null, and
  reading its price throws.
\<close>

record cart_item =
  ci_product :: objectid
  ci_quantity :: real

record populated_item =
  pi_product :: "product option"
  pi_quantity :: real

datatype js_error = TypeError string

definition populate_item :: "product list \<Rightarrow> cart_item \<Rightarrow> populated_item" where
  "populate_item ps it = \<lparr> pi_product = findById (ci_product it) ps, pi_quantity = ci_quantity it \<rparr>"

fun reduce_total :: "real \<Rightarrow> populated_item list \<Rightarrow> js_error + real" where
  "reduce_total acc [] = Inr acc"
| "reduce_total acc (item # items) =
     (case pi_product item of
        None \<Rightarrow> Inl (TypeError ''Cannot read properties of null (reading price)'')
      | Some p \<Rightarrow> reduce_total (acc + p_price p * pi_quantity item) items)"

definition getTotal :: "populated_item list \<Rightarrow> js_error + real" where
  "getTotal items = reduce_total 0 items"

text \<open>The validator of \<open>cartItemSchema\<close>: \<open>quantity: { type: Number, required: true, min: 1 }\<close>.\<close>

definition cartItemSchema_valid :: "cart_item \<Rightarrow> bool" where
  "cartItemSchema_valid it = (1 \<le> ci_quantity it)"

type_synonym carts = "objectid \<rightharpoonup> cart_item list"

datatype cart_error = ValidationError

text \<open>Saving a cart validates every line item against the schema.\<close>

definition Cart_save :: "objectid \<Rightarrow> cart_item list \<Rightarrow> carts \<Rightarrow> cart_error + carts" where
  "Cart_save uid items cs =
     (if list_all cartItemSchema_valid items then Inr (cs(uid \<mapsto> items)) else Inl ValidationError)"

text \<open>
  Modelled from the spec: the cart routes (routes/cart) are not among the sources.
  Section 4.5 of the specification: \<open>get\<close> returns the user's cart, creating an empty
  one if absent; \<open>addOrUpdateItem\<close> rejects a quantity below 1 with a validation
  error, replaces the quantity of a product already in the cart and appends
  otherwise; \<open>removeItem\<close> is idempotent.
\<close>

definition cart_get :: "objectid \<Rightarrow> carts \<Rightarrow> cart_item list \<times> carts" where
  "cart_get uid cs = (case cs uid of Some items \<Rightarrow> (items, cs) | None \<Rightarrow> ([], cs(uid \<mapsto> [])))"

definition addOrUpdateItem :: "objectid \<Rightarrow> objectid \<Rightarrow> real \<Rightarrow> carts \<Rightarrow> cart_error + carts" where
  "addOrUpdateItem uid pid q cs =
     (if q < 1 then Inl ValidationError
      else
        let (items, cs1) = cart_get uid cs;
            items' = (if list_ex (\<lambda>it. ci_product it = pid) items
                      then map (\<lambda>it. if ci_product it = pid then it \<lparr> ci_quantity := q \<rparr> else it) items
                      else items @ [\<lparr> ci_product = pid, ci_quantity = q \<rparr>])
        in Cart_save uid items' cs1)"

definition removeItem :: "objectid \<Rightarrow> objectid \<Rightarrow> carts \<Rightarrow> cart_error + carts" where
  "removeItem uid pid cs =
     (let (items, cs1) = cart_get uid cs
      in Cart_save uid (filter (\<lambda>it. ci_product it \<noteq> pid) items) cs1)"

inductive reachable_carts :: "carts \<Rightarrow> bool" where
  carts_init: "reachable_carts Map.empty"
| carts_get: "reachable_carts cs \<Longrightarrow> reachable_carts (snd (cart_get uid cs))"
| carts_add: "reachable_carts cs \<Longrightarrow> addOrUpdateItem uid pid q cs = Inr cs' \<Longrightarrow> reachable_carts cs'"
| carts_remove: "reachable_carts cs \<Longrightarrow> removeItem uid pid cs = Inr cs' \<Longrightarrow> reachable_carts cs'"


section \<open>Example data\<close>

definition ex_seller :: user where
  "ex_seller = \<lparr> u_id = 1, u_email = ''s1@shop.io'', u_password = ''#pw123456'', u_name = ''s1'',
                  u_role = ''seller'', u_storeInfo = Some \<lparr> si_name = Some ''Mugs'' \<rparr> \<rparr>"

definition ex_buyer :: user where
  "ex_buyer = \<lparr> u_id = 2, u_email = ''b1@mail.io'', u_password = ''#secret99'', u_name = ''b1'',
                 u_role = ''user'', u_storeInfo = None \<rparr>"

definition ex_mug :: product where
  "ex_mug = \<lparr> p_id = 16, p_name = Some ''Mug'', p_description = Some ''A mug'', p_price = 999 / 100,
               p_image = Some ''/uploads/1-2.png'', p_seller = 1,
               p_store = \<lparr> st_id = 1, st_name = ''s1'' \<rparr>, p_createdAt = 100 \<rparr>"

definition ex_state :: state where
  "ex_state = \<lparr> s_users = [ex_seller, ex_buyer], s_products = [ex_mug],
                 s_files = {''uploads/1-2.png'', ''uploads/3-4.png''}, s_unlinks = [] \<rparr>"

definition ex_env :: env where
  "ex_env = \<lparr> e_new_id = 17, e_now = 200, e_db = DbOk \<rparr>"


definition ex_file :: upload_file where
  "ex_file = \<lparr> f_filename = ''3-4.png'', f_path = ''uploads/3-4.png'' \<rparr>"

definition ex_form :: product_form where
  "ex_form = \<lparr> pf_name = Some ''Cup'', pf_description = Some ''A cup'', pf_price = Numeric 5 \<rparr>"

section \<open>Invariants and further example data\<close>

text \<open>Every product's snapshot carries the id of its seller.\<close>

definition snapshot_matches :: "state \<Rightarrow> bool" where
  "snapshot_matches s = list_all (\<lambda>p. st_id (p_store p) = p_seller p) (s_products s)"

text \<open>An email counts as registered when a user holds its case-normalized form.\<close>

definition registered :: "user list \<Rightarrow> string \<Rightarrow> bool" where
  "registered us e = list_ex (\<lambda>u. u_email u = toLowerCase e) us"

text \<open>Every stored line item passes the validator of the schema.\<close>

definition carts_valid :: "carts \<Rightarrow> bool" where
  "carts_valid cs = (\<forall>uid its. cs uid = Some its \<longrightarrow> list_all cartItemSchema_valid its)"

definition ex_catalogue :: state where
  "ex_catalogue =
     snd (products_post \<lparr> e_new_id = 18, e_now = 300, e_db = DbOk \<rparr> ex_seller ex_form (Some ex_file)
       (snd (products_post \<lparr> e_new_id = 17, e_now = 200, e_db = DbOk \<rparr> ex_buyer ex_form (Some ex_file)
         (snd (products_post \<lparr> e_new_id = 16, e_now = 100, e_db = DbOk \<rparr> ex_seller ex_form (Some ex_file)
           \<lparr> s_users = [ex_seller, ex_buyer], s_products = [], s_files = {}, s_unlinks = [] \<rparr>)))))"

definition ex_items :: "cart_item list" where
  "ex_items = [\<lparr> ci_product = 16, ci_quantity = 5 \<rparr>, \<lparr> ci_product = 17, ci_quantity = 2 \<rparr>]"

definition ex_cup :: product where
  "ex_cup = \<lparr> p_id = 17, p_name = Some ''Cup'', p_description = Some ''A cup'', p_price = 5,
               p_image = Some ''/uploads/3-4.png'', p_seller = 1,
               p_store = \<lparr> st_id = 1, st_name = ''s1'' \<rparr>, p_createdAt = 200 \<rparr>"

definition ex_reprice :: updateData where
  "ex_reprice = \<lparr> ud_name = None, ud_description = None, ud_price = Numeric 12, ud_image = None \<rparr>"

definition ex_auth_env :: auth_env where
  "ex_auth_env = \<lparr> ae_new_id = 3, ae_db = DbOk, ae_hash = (\<lambda>pw. CHR ''#'' # pw),
                    ae_compare = (\<lambda>pw h. Some (h = CHR ''#'' # pw)),
                    ae_sign = (\<lambda>i. ''token-'' @ oid_toString i) \<rparr>"

definition ex_register :: "string \<Rightarrow> register_form" where
  "ex_register e = \<lparr> rf_email = Some e, rf_password = Some ''pw123456'', rf_name = Some ''Ann'',
                      rf_role = Some ''user'', rf_storeInfo = None \<rparr>"

definition ex_users :: "user list" where
  "ex_users = snd (auth_register ex_auth_env (ex_register ''Ann@Mail.io'') [ex_seller, ex_buyer])"

definition ex_carts :: carts where
  "ex_carts = Map.empty(2 \<mapsto> [\<lparr> ci_product = 16, ci_quantity = 5 \<rparr>])"

section \<open>Basic facts\<close>

lemma length_oid_toString: "length (oid_toString x) = 24"
  by (simp add: oid_toString_def)

lemma store_toString_neq_oid: "store_toString st \<noteq> oid_toString x"
proof
  assume "store_toString st = oid_toString x"
  then have "length (store_toString st) = length (oid_toString x)" by simp
  then show False by (simp add: store_toString_def length_oid_toString)
qed

section \<open>Ownership guard of update and delete\<close>

text \<open>
  C8. A user who is not the owner of an existing product (the product's seller
  reference differs from the user's id) gets 403 from update and from delete, and the
  state is the one before the request: the record is found unchanged under its
  identifier and the public listing is the same.
\<close>

theorem non_owner_gets_403_record_unchanged:
  assumes "findById pid (s_products s) = Some p" and "p_seller p \<noteq> u_id u"
  shows "products_put env u pid b file s = (\<lparr> status = 403, body = Message ''Not authorized'' \<rparr>, s)
       \<and> products_delete env u pid s = (\<lparr> status = 403, body = Message ''Not authorized'' \<rparr>, s)
       \<and> findById pid (s_products (snd (products_put env u pid b file s))) = Some p
       \<and> findById pid (s_products (snd (products_delete env u pid s))) = Some p
       \<and> products_get_all (snd (products_put env u pid b file s)) = products_get_all s
       \<and> products_get_all (snd (products_delete env u pid s)) = products_get_all s"
  using assms by (simp add: products_put_def products_delete_def store_toString_neq_oid)

theorem non_owner_gets_403_record_unchanged_witness:
  "findById 16 (s_products ex_state) = Some ex_mug \<and> p_seller ex_mug \<noteq> u_id ex_buyer
   \<and> products_put ex_env ex_buyer 16 ex_form (Some ex_file) ex_state
        = (\<lparr> status = 403, body = Message ''Not authorized'' \<rparr>, ex_state)
   \<and> products_delete ex_env ex_buyer 16 ex_state
        = (\<lparr> status = 403, body = Message ''Not authorized'' \<rparr>, ex_state)"
proof -
  have a: "findById 16 (s_products ex_state) = Some ex_mug"
    by (simp add: findById_def ex_state_def ex_mug_def)
  have b: "p_seller ex_mug \<noteq> u_id ex_buyer"
    by (simp add: ex_mug_def ex_buyer_def)
  show ?thesis
    using a b non_owner_gets_403_record_unchanged [OF a b, of ex_env ex_form "Some ex_file"]
    by simp
qed

text \<open>
  C1. The guard of update and delete in routes/products.js compares
  \<open>product.store.toString()\<close>, the rendering of the snapshot object, with the user's id.
  The two are never equal, so the owner is rejected as well: here the seller \<open>s1\<close>, whose
  id is the seller reference of the mug, gets 403 from both operations and the catalogue
  stays as it was.
\<close>

theorem owner_update_delete_rejected:
  "findById 16 (s_products ex_state) = Some ex_mug \<and> p_seller ex_mug = u_id ex_seller
   \<and> products_put ex_env ex_seller 16 ex_form None ex_state
        = (\<lparr> status = 403, body = Message ''Not authorized'' \<rparr>, ex_state)
   \<and> products_delete ex_env ex_seller 16 ex_state
        = (\<lparr> status = 403, body = Message ''Not authorized'' \<rparr>, ex_state)"
  by (simp add: products_put_def products_delete_def store_toString_neq_oid findById_def
      ex_state_def ex_mug_def ex_seller_def)

text \<open>
  The update route of the second sibling copy compares \<open>product.seller\<close> and lets the same
  owner through.
\<close>

lemma part_001_put_owner_proceeds:
  "status (fst (part_001_put ex_env ex_seller 16 ex_form None ex_state)) = 200"
  by (simp add: part_001_put_def findById_def findByIdAndUpdate_def
      ex_state_def ex_mug_def ex_seller_def ex_form_def ex_env_def Let_def)

section \<open>Product creation\<close>

text \<open>
  C2. The create route of routes/products.js has no role check: the buyer \<open>b1\<close> (role
  \<open>user\<close>) who uploads an image gets 201, and the catalogue then holds a product whose
  seller is the buyer.
\<close>

theorem buyer_creates_product:
  "u_role ex_buyer \<noteq> ''seller''
   \<and> status (fst (products_post ex_env ex_buyer ex_form (Some ex_file) ex_state)) = 201
   \<and> map p_seller (s_products (snd (products_post ex_env ex_buyer ex_form (Some ex_file) ex_state)))
        = [u_id ex_seller, u_id ex_buyer]"
  by (simp add: products_post_def Product_save_def ex_state_def ex_mug_def ex_seller_def
      ex_buyer_def ex_form_def ex_env_def ex_file_def Let_def)

text \<open>Both sibling copies of the route check the role first and answer 403.\<close>

lemma part_001_post_rejects_buyer:
  "part_001_post ex_env ex_buyer ex_form (Some ex_file) ex_state
     = (\<lparr> status = 403, body = Message ''Only sellers can create products'' \<rparr>, ex_state)"
  by (simp add: part_001_post_def ex_buyer_def)

lemma part_001_post_non_seller:
  "u_role u \<noteq> ''seller'' \<Longrightarrow>
   part_001_post env u b file s
     = (\<lparr> status = 403, body = Message ''Only sellers can create products'' \<rparr>, s)"
  by (simp add: part_001_post_def)




section \<open>The update write\<close>

lemma update_first_keys:
  assumes "\<And>q. p_id (f q) = p_id q" and "\<And>q. p_seller (f q) = p_seller q"
  shows "map (\<lambda>q. (p_id q, p_seller q)) (update_first pid f ps) = map (\<lambda>q. (p_id q, p_seller q)) ps"
  using assms by (induction ps) simp_all

lemma findById_update_first:
  assumes "\<And>q. p_id (f q) = p_id q"
  shows "findById pid (update_first pid f ps) = map_option f (findById pid ps)"
  using assms by (induction ps) (simp_all add: findById_def)

lemma apply_updateData_keeps [simp]:
  "p_id (apply_updateData ud q) = p_id q"
  "p_seller (apply_updateData ud q) = p_seller q"
  "p_store (apply_updateData ud q) = p_store q"
  "p_createdAt (apply_updateData ud q) = p_createdAt q"
  by (simp_all add: apply_updateData_def)

lemma findByIdAndUpdate_keeps_seller:
  assumes "findByIdAndUpdate env pid ud ps = Inr (r, ps')"
  shows "map (\<lambda>q. (p_id q, p_seller q)) ps' = map (\<lambda>q. (p_id q, p_seller q)) ps
       \<and> map_option p_seller (findById pid ps') = map_option p_seller (findById pid ps)"
  using assms
  by (auto simp add: findByIdAndUpdate_def Let_def update_first_keys findById_update_first
      option.map_comp comp_def split: if_splits db_result.splits)

text \<open>
  C7. A successful update write leaves the seller reference of the product as it was
  (and the identifier and seller of every product of the catalogue): \<open>updateData\<close> holds
  name, description, price and possibly image only.
\<close>

theorem update_keeps_seller:
  assumes "findById pid (s_products s) = Some p"
    and "put_write env pid p b file s = (r, s')"
    and "status r = 200"
  shows "map_option p_seller (findById pid (s_products s')) = Some (p_seller p)
       \<and> map (\<lambda>q. (p_id q, p_seller q)) (s_products s') = map (\<lambda>q. (p_id q, p_seller q)) (s_products s)"
proof -
  obtain ud s1 where 0: "put_prepare p b file s = (ud, s1)"
    by (cases "put_prepare p b file s")
  have 1: "s_products s1 = s_products s"
    using 0 by (auto simp add: put_prepare_def fs_unlink_def Let_def split: option.splits if_splits)
  show ?thesis
  proof (cases "findByIdAndUpdate env pid ud (s_products s1)")
    case (Inl msg)
    with 0 assms(2,3) show ?thesis by (auto simp add: put_write_def)
  next
    case (Inr res)
    then obtain up ps' where 3: "findByIdAndUpdate env pid ud (s_products s1) = Inr (up, ps')"
      by (cases res) simp
    with 0 assms(2) have "s_products s' = ps'" by (auto simp add: put_write_def)
    with findByIdAndUpdate_keeps_seller [OF 3] 1 assms(1) show ?thesis by simp
  qed
qed

theorem update_keeps_seller_witness:
  "findById 16 (s_products ex_state) = Some ex_mug
   \<and> status (fst (put_write ex_env 16 ex_mug ex_form (Some ex_file) ex_state)) = 200
   \<and> map_option p_seller
        (findById 16 (s_products (snd (put_write ex_env 16 ex_mug ex_form (Some ex_file) ex_state))))
       = Some (p_seller ex_mug)
   \<and> map_option p_name
        (findById 16 (s_products (snd (put_write ex_env 16 ex_mug ex_form (Some ex_file) ex_state))))
       = Some (Some ''Cup'')"
proof -
  have a: "findById 16 (s_products ex_state) = Some ex_mug"
    by (simp add: findById_def ex_state_def ex_mug_def)
  have b: "status (fst (put_write ex_env 16 ex_mug ex_form (Some ex_file) ex_state)) = 200"
    by (simp add: put_write_def put_prepare_def fs_unlink_def findByIdAndUpdate_def ex_form_def
        ex_env_def ex_mug_def Let_def)
  have c: "map_option p_name
        (findById 16 (s_products (snd (put_write ex_env 16 ex_mug ex_form (Some ex_file) ex_state))))
       = Some (Some ''Cup'')"
    by (simp add: put_write_def put_prepare_def fs_unlink_def findByIdAndUpdate_def ex_form_def
        ex_env_def ex_mug_def Let_def ex_state_def findById_def apply_updateData_def)
  show ?thesis
    using a b c update_keeps_seller [OF a _ b, where s' = "snd (put_write ex_env 16 ex_mug ex_form (Some ex_file) ex_state)"]
    by simp
qed

text \<open>
  The update route of the second sibling copy, which lets the owner through, leaves the
  identifier and the seller of every product as they were, whatever its outcome.
\<close>

lemma part_001_put_keeps_seller:
  "map (\<lambda>q. (p_id q, p_seller q)) (s_products (snd (part_001_put env u pid b file s)))
     = map (\<lambda>q. (p_id q, p_seller q)) (s_products s)"
proof (cases "findById pid (s_products s)")
  case None
  then show ?thesis by (simp add: part_001_put_def)
next
  case (Some p)
  show ?thesis
  proof (cases "oid_toString (p_seller p) \<noteq> oid_toString (u_id u)")
    case True
    with Some show ?thesis by (simp add: part_001_put_def)
  next
    case False
    with Some show ?thesis
      by (auto simp add: part_001_put_def fs_unlink_def Let_def
          split: option.splits sum.splits prod.splits dest: findByIdAndUpdate_keeps_seller)
  qed
qed

section \<open>The per-seller listing\<close>

lemma products_put_state: "snd (products_put env u pid b file s) = s"
  by (simp add: products_put_def store_toString_neq_oid split: option.splits)

lemma products_delete_state: "snd (products_delete env u pid s) = s"
  by (simp add: products_delete_def store_toString_neq_oid split: option.splits)

lemma products_post_snapshot:
  "snapshot_matches s \<Longrightarrow> snapshot_matches (snd (products_post env u b file s))"
  by (auto simp add: snapshot_matches_def products_post_def Product_save_def fs_unlink_def Let_def
      split: option.splits sum.splits db_result.splits if_splits)

lemma reachable_snapshot: "reachable s \<Longrightarrow> snapshot_matches s"
proof (induction rule: reachable.induct)
  case (reach_init us fs)
  show ?case by (simp add: snapshot_matches_def)
next
  case (reach_users s us)
  then show ?case by (simp add: snapshot_matches_def)
next
  case (reach_post s env u b upl)
  then show ?case by (simp add: products_post_snapshot)
next
  case (reach_put s env u pid b upl)
  then show ?case by (simp add: products_put_state)
next
  case (reach_delete s env u pid)
  then show ?case by (simp add: products_delete_state)
next
  case (reach_unlink s path err)
  then show ?case by (simp add: snapshot_matches_def unlink_complete_def)
qed

lemma listed_my_store:
  "listed (products_get_my_store u s)
     = sort_newest (filter (\<lambda>p. st_id (p_store p) = u_id u) (s_products s))"
  by (simp add: listed_def products_get_my_store_def populate_seller_def comp_def)

lemma sort_newest_sorted: "sorted_wrt (\<lambda>a b. p_createdAt b \<le> p_createdAt a) (sort_newest ps)"
proof -
  have "sorted (map (\<lambda>p. - p_createdAt p) (sort_newest ps))"
    unfolding sort_newest_def by (rule sorted_sort_key)
  then show ?thesis by (simp add: sorted_map)
qed

text \<open>
  C9. In every state the product routes can reach, the per-seller listing answers 200
  with exactly the products whose seller reference is the user (as a multiset: none
  missing, none twice), none of another seller, newest first. The route filters on the
  snapshot's id, which creation sets to the seller and no route changes.
\<close>

theorem my_store_lists_own_products:
  assumes "reachable s"
  shows "status (products_get_my_store u s) = 200
       \<and> mset (listed (products_get_my_store u s))
           = mset (filter (\<lambda>p. p_seller p = u_id u) (s_products s))
       \<and> (\<forall>p \<in> set (listed (products_get_my_store u s)). p_seller p = u_id u)
       \<and> sorted_wrt (\<lambda>a b. p_createdAt b \<le> p_createdAt a) (listed (products_get_my_store u s))"
proof -
  have inv: "list_all (\<lambda>p. st_id (p_store p) = p_seller p) (s_products s)"
    using reachable_snapshot [OF assms] by (simp add: snapshot_matches_def)
  have same: "filter (\<lambda>p. st_id (p_store p) = u_id u) (s_products s)
            = filter (\<lambda>p. p_seller p = u_id u) (s_products s)"
    using inv by (intro filter_cong) (auto simp add: list_all_iff)
  have m: "mset (listed (products_get_my_store u s))
           = mset (filter (\<lambda>p. p_seller p = u_id u) (s_products s))"
    by (simp add: listed_my_store same sort_newest_def)
  have own: "\<forall>p \<in> set (listed (products_get_my_store u s)). p_seller p = u_id u"
  proof
    fix p assume "p \<in> set (listed (products_get_my_store u s))"
    then have "p \<in># mset (listed (products_get_my_store u s))" by simp
    then have "p \<in> set (filter (\<lambda>p. p_seller p = u_id u) (s_products s))"
      unfolding m by simp
    then show "p_seller p = u_id u" by simp
  qed
  show ?thesis
    using m own by (simp add: listed_my_store sort_newest_sorted) (simp add: products_get_my_store_def)
qed

theorem my_store_lists_own_products_witness:
  "reachable ex_catalogue
   \<and> map p_id (s_products ex_catalogue) = [16, 17, 18]
   \<and> map p_id (listed (products_get_my_store ex_seller ex_catalogue)) = [18, 16]
   \<and> map p_seller (listed (products_get_my_store ex_seller ex_catalogue)) = [u_id ex_seller, u_id ex_seller]"
proof -
  have r: "reachable ex_catalogue"
    unfolding ex_catalogue_def by (intro reach_post reach_init)
  have a: "map p_id (s_products ex_catalogue) = [16, 17, 18]"
    by (simp add: ex_catalogue_def products_post_def Product_save_def Let_def ex_form_def)
  have b: "map p_id (listed (products_get_my_store ex_seller ex_catalogue)) = [18, 16]"
    by (simp add: listed_my_store sort_newest_def ex_catalogue_def products_post_def
        Product_save_def Let_def ex_form_def ex_seller_def ex_buyer_def)
  have c: "map p_seller (listed (products_get_my_store ex_seller ex_catalogue)) = [u_id ex_seller, u_id ex_seller]"
    by (simp add: listed_my_store sort_newest_def ex_catalogue_def products_post_def
        Product_save_def Let_def ex_form_def ex_seller_def ex_buyer_def)
  show ?thesis
    using r a b c my_store_lists_own_products [OF r, of ex_seller] by simp
qed

section \<open>Cart total\<close>

lemma reduce_total_populated:
  "reduce_total acc (map (\<lambda>(p, q). \<lparr> pi_product = Some p, pi_quantity = q \<rparr>) pqs)
     = Inr (acc + (\<Sum>(p, q)\<leftarrow>pqs. p_price p * q))"
  by (induction pqs arbitrary: acc) (auto simp add: algebra_simps)

lemma reduce_total_populate:
  "list_all (\<lambda>it. findById (ci_product it) ps \<noteq> None) its \<Longrightarrow>
   reduce_total acc (map (populate_item ps) its)
     = Inr (acc + (\<Sum>it\<leftarrow>its. case findById (ci_product it) ps of
                                     Some p \<Rightarrow> p_price p * ci_quantity it | None \<Rightarrow> 0))"
  by (induction its arbitrary: acc) (auto simp add: populate_item_def algebra_simps)

text \<open>
  C4. \<open>getTotal\<close> is a function of the populated line items alone: the empty cart totals
  0, and the total is the sum of price times quantity over the line items. With the
  references populated against the product collection, the prices are the ones stored
  at that moment, so a later price change shows in the total.
\<close>

theorem cart_total_is_sum:
  "getTotal [] = Inr 0
   \<and> getTotal (map (\<lambda>(p, q). \<lparr> pi_product = Some p, pi_quantity = q \<rparr>) pqs)
       = Inr (\<Sum>(p, q)\<leftarrow>pqs. p_price p * q)
   \<and> (list_all (\<lambda>it. findById (ci_product it) ps \<noteq> None) its \<longrightarrow>
        getTotal (map (populate_item ps) its)
          = Inr (\<Sum>it\<leftarrow>its. case findById (ci_product it) ps of
                                  Some p \<Rightarrow> p_price p * ci_quantity it | None \<Rightarrow> 0))"
  by (simp add: getTotal_def reduce_total_populated reduce_total_populate)

theorem cart_total_is_sum_witness:
  "list_all (\<lambda>it. findById (ci_product it) [ex_mug, ex_cup] \<noteq> None) ex_items
   \<and> getTotal (map (populate_item [ex_mug, ex_cup]) ex_items) = Inr (5995 / 100)
   \<and> getTotal (map (populate_item (update_first 16 (apply_updateData ex_reprice) [ex_mug, ex_cup]))
         ex_items) = Inr 70"
proof -
  have a: "list_all (\<lambda>it. findById (ci_product it) [ex_mug, ex_cup] \<noteq> None) ex_items"
    by (simp add: ex_items_def findById_def ex_mug_def ex_cup_def)
  have b: "list_all (\<lambda>it. findById (ci_product it)
             (update_first 16 (apply_updateData ex_reprice) [ex_mug, ex_cup]) \<noteq> None) ex_items"
    by (simp add: ex_items_def findById_def ex_mug_def ex_cup_def)
  have c: "(\<Sum>it\<leftarrow>ex_items. case findById (ci_product it) [ex_mug, ex_cup] of
              Some p \<Rightarrow> p_price p * ci_quantity it | None \<Rightarrow> 0) = 5995 / 100"
    by (simp add: ex_items_def findById_def ex_mug_def ex_cup_def)
  have d: "(\<Sum>it\<leftarrow>ex_items. case findById (ci_product it)
              (update_first 16 (apply_updateData ex_reprice) [ex_mug, ex_cup]) of
              Some p \<Rightarrow> p_price p * ci_quantity it | None \<Rightarrow> 0) = 70"
    by (simp add: ex_items_def findById_def ex_mug_def ex_cup_def ex_reprice_def apply_updateData_def)
  show ?thesis
    using a b c d
      cart_total_is_sum [of "[]" "[ex_mug, ex_cup]" ex_items]
      cart_total_is_sum [of "[]" "update_first 16 (apply_updateData ex_reprice) [ex_mug, ex_cup]" ex_items]
    by simp
qed

section \<open>Login and registration\<close>

text \<open>
  C5. A login that supplies email and password is answered with status 400 and the
  message \<open>Invalid credentials\<close> both when no user has the email and when a user has it
  but the password comparison says no: the two answers are equal.
\<close>

theorem login_rejections_identical:
  assumes "lf_email b1 = Some e1" and "e1 \<noteq> []" and "lf_password b1 = Some pw1" and "pw1 \<noteq> []"
    and "User_findOne us (toLowerCase e1) = None"
    and "lf_email b2 = Some e2" and "e2 \<noteq> []" and "lf_password b2 = Some pw2" and "pw2 \<noteq> []"
    and "User_findOne us (toLowerCase e2) = Some u"
    and "ae_compare env pw2 (u_password u) = Some False"
  shows "auth_login env b1 us = \<lparr> a_status = 400, a_body = AuthMessage ''Invalid credentials'' \<rparr>
       \<and> auth_login env b2 us = \<lparr> a_status = 400, a_body = AuthMessage ''Invalid credentials'' \<rparr>
       \<and> auth_login env b1 us = auth_login env b2 us"
  using assms by (simp add: auth_login_def falsy_def Let_def)

theorem login_rejections_identical_witness:
  "User_findOne [ex_seller, ex_buyer] (toLowerCase ''nobody@mail.io'') = None
   \<and> User_findOne [ex_seller, ex_buyer] (toLowerCase ''B1@mail.io'') = Some ex_buyer
   \<and> ae_compare ex_auth_env ''wrong-password'' (u_password ex_buyer) = Some False
   \<and> auth_login ex_auth_env \<lparr> lf_email = Some ''nobody@mail.io'', lf_password = Some ''secret99'' \<rparr>
        [ex_seller, ex_buyer]
      = auth_login ex_auth_env \<lparr> lf_email = Some ''B1@mail.io'', lf_password = Some ''wrong-password'' \<rparr>
        [ex_seller, ex_buyer]
   \<and> auth_login ex_auth_env \<lparr> lf_email = Some ''B1@mail.io'', lf_password = Some ''wrong-password'' \<rparr>
        [ex_seller, ex_buyer]
      = \<lparr> a_status = 400, a_body = AuthMessage ''Invalid credentials'' \<rparr>"
proof -
  have a: "User_findOne [ex_seller, ex_buyer] (toLowerCase ''nobody@mail.io'') = None"
    by code_simp
  have b: "User_findOne [ex_seller, ex_buyer] (toLowerCase ''B1@mail.io'') = Some ex_buyer"
    by code_simp
  have c: "ae_compare ex_auth_env ''wrong-password'' (u_password ex_buyer) = Some False"
    by (simp add: ex_auth_env_def ex_buyer_def)
  show ?thesis
    using a b c
      login_rejections_identical [of
        "\<lparr> lf_email = Some ''nobody@mail.io'', lf_password = Some ''secret99'' \<rparr>" "''nobody@mail.io''"
        "''secret99''" "[ex_seller, ex_buyer]"
        "\<lparr> lf_email = Some ''B1@mail.io'', lf_password = Some ''wrong-password'' \<rparr>" "''B1@mail.io''"
        "''wrong-password''" ex_buyer ex_auth_env]
    by simp
qed

lemma emailRegex_test_nonempty: "emailRegex_test e \<Longrightarrow> e \<noteq> []"
  by (auto simp add: emailRegex_test_def Let_def)

text \<open>
  A registration whose existence check finds a user is answered with the conflict and
  leaves the users as they are.
\<close>

lemma register_existing_conflict:
  assumes "User_findOne us e = Some existing"
    and "rf_email b = Some e" and "emailRegex_test e"
    and "rf_password b = Some pw" and "6 \<le> length pw"
    and "rf_name b = Some n" and "n \<noteq> []"
  shows "auth_register env b us
           = (\<lparr> a_status = 400, a_body = AuthMessage ''User already exists'' \<rparr>, us)"
proof -
  have "e \<noteq> []" using assms(3) by (rule emailRegex_test_nonempty)
  moreover have "pw \<noteq> []" using assms(5) by auto
  ultimately show ?thesis
    using assms by (simp add: auth_register_def falsy_def Let_def)
qed

lemma User_findOne_registered: "registered us e \<Longrightarrow> \<exists>u. User_findOne us e = Some u"
  by (cases "User_findOne us e")
     (auto simp add: registered_def User_findOne_def find_None_iff list_ex_iff)

text \<open>
  A registration either leaves the users as they are or appends one user, whose email is
  the lower-case form of the email of the request; so a successful registration makes its
  email registered, and a registered email stays registered.
\<close>

lemma User_save_registers:
  "User_save env e pw n role si us = Inr (u, us') \<Longrightarrow> us' = us @ [u] \<and> u_email u = toLowerCase e"
  by (auto simp add: User_save_def Let_def split: db_result.splits if_splits)

lemma register_appends:
  "snd (auth_register env b us) = us \<and> a_status (fst (auth_register env b us)) \<noteq> 201 \<or>
   (\<exists>u. snd (auth_register env b us) = us @ [u]
        \<and> a_status (fst (auth_register env b us)) = 201
        \<and> (\<forall>e. rf_email b = Some e \<longrightarrow> u_email u = toLowerCase e))"
proof (cases "rf_email b")
  case None
  then show ?thesis by (simp add: auth_register_def falsy_def)
next
  case (Some e)
  note e = this
  show ?thesis
  proof (cases "User_findOne us e")
    case (Some existing)
    with e show ?thesis by (simp add: auth_register_def Let_def)
  next
    case None
    have ok: "User_save env e pw n role si us = Inr res \<Longrightarrow>
          \<exists>u. res = (u, us @ [u]) \<and> u_email u = toLowerCase e" for pw n role si res
      using User_save_registers [of env e pw n role si us "fst res" "snd res"]
      by (cases res) auto
    show ?thesis
      using e None
      by (auto simp add: auth_register_def Let_def split: sum.splits dest!: ok)
  qed
qed

lemma register_success_registers:
  assumes "a_status (fst (auth_register env b us)) = 201" and "rf_email b = Some e"
  shows "registered (snd (auth_register env b us)) e"
  using register_appends [of env b us] assms by (auto simp add: registered_def)

lemma register_keeps_registered:
  assumes "registered us e"
  shows "registered (snd (auth_register env b us)) e"
  using register_appends [of env b us] assms by (auto simp add: registered_def)

text \<open>
  C6. When an email is registered, a registration with that email or with a string that
  differs from it in letter case only (and with a name and a password of six characters or
  more, so that it reaches the existence check) is answered with 400 \<open>User already exists\<close>
  and the users are unchanged.
\<close>

theorem register_duplicate_email_conflict:
  assumes "registered us e" and "toLowerCase e' = toLowerCase e"
    and "rf_email b = Some e'" and "emailRegex_test e'"
    and "rf_password b = Some pw" and "6 \<le> length pw"
    and "rf_name b = Some n" and "n \<noteq> []"
  shows "auth_register env b us
           = (\<lparr> a_status = 400, a_body = AuthMessage ''User already exists'' \<rparr>, us)"
proof -
  have "registered us e'"
    using assms(1,2) by (simp add: registered_def)
  then obtain u where "User_findOne us e' = Some u"
    using User_findOne_registered by blast
  then show ?thesis
    using assms(3-8) by (rule register_existing_conflict)
qed

theorem register_duplicate_email_conflict_witness:
  "a_status (fst (auth_register ex_auth_env (ex_register ''Ann@Mail.io'') [ex_seller, ex_buyer])) = 201
   \<and> map u_email ex_users = [''s1@shop.io'', ''b1@mail.io'', ''ann@mail.io'']
   \<and> registered ex_users ''Ann@Mail.io''
   \<and> toLowerCase ''ANN@mail.IO'' = toLowerCase ''Ann@Mail.io''
   \<and> emailRegex_test ''ANN@mail.IO''
   \<and> auth_register ex_auth_env (ex_register ''ANN@mail.IO'') ex_users
        = (\<lparr> a_status = 400, a_body = AuthMessage ''User already exists'' \<rparr>, ex_users)
   \<and> auth_register ex_auth_env (ex_register ''Ann@Mail.io'') ex_users
        = (\<lparr> a_status = 400, a_body = AuthMessage ''User already exists'' \<rparr>, ex_users)"
proof -
  have a: "a_status (fst (auth_register ex_auth_env (ex_register ''Ann@Mail.io'') [ex_seller, ex_buyer])) = 201"
    "map u_email ex_users = [''s1@shop.io'', ''b1@mail.io'', ''ann@mail.io'']"
    by code_simp+
  have b: "registered ex_users ''Ann@Mail.io''"
    by code_simp
  have c: "toLowerCase ''ANN@mail.IO'' = toLowerCase ''Ann@Mail.io''"
    by code_simp
  have d: "emailRegex_test ''ANN@mail.IO''" "emailRegex_test ''Ann@Mail.io''"
    by code_simp+
  have f: "rf_email (ex_register x) = Some x" "rf_password (ex_register x) = Some ''pw123456''"
    "rf_name (ex_register x) = Some ''Ann''" for x
    by (simp_all add: ex_register_def)
  show ?thesis
    using a b c d
      register_duplicate_email_conflict [OF b c f(1) d(1) f(2) _ f(3), of ex_auth_env]
      register_duplicate_email_conflict [OF b refl f(1) d(2) f(2) _ f(3), of ex_auth_env]
    by simp
qed

section \<open>Cart quantities\<close>

lemma Cart_save_valid:
  "Cart_save uid its cs = Inr cs' \<Longrightarrow> cs' = cs(uid \<mapsto> its) \<and> list_all cartItemSchema_valid its"
  by (auto simp add: Cart_save_def split: if_splits)

lemma cart_get_valid: "carts_valid cs \<Longrightarrow> carts_valid (snd (cart_get uid cs))"
  by (auto simp add: carts_valid_def cart_get_def split: option.splits)

lemma Cart_save_carts_valid:
  "carts_valid cs \<Longrightarrow> Cart_save uid its cs = Inr cs' \<Longrightarrow> carts_valid cs'"
  by (auto simp add: carts_valid_def split: if_splits dest!: Cart_save_valid)

lemma addOrUpdateItem_valid:
  assumes "carts_valid cs" and "addOrUpdateItem uid pid q cs = Inr cs'"
  shows "carts_valid cs'"
proof -
  obtain its cs1 where g: "cart_get uid cs = (its, cs1)" by (cases "cart_get uid cs")
  then have "carts_valid cs1" using cart_get_valid [OF assms(1), of uid] by simp
  then show ?thesis
    using assms(2) g
    by (auto simp add: addOrUpdateItem_def Let_def split: if_splits intro: Cart_save_carts_valid)
qed

lemma removeItem_valid:
  assumes "carts_valid cs" and "removeItem uid pid cs = Inr cs'"
  shows "carts_valid cs'"
proof -
  obtain its cs1 where g: "cart_get uid cs = (its, cs1)" by (cases "cart_get uid cs")
  then have "carts_valid cs1" using cart_get_valid [OF assms(1), of uid] by simp
  then show ?thesis
    using assms(2) g
    by (auto simp add: removeItem_def Let_def intro: Cart_save_carts_valid)
qed

lemma reachable_carts_valid: "reachable_carts cs \<Longrightarrow> carts_valid cs"
proof (induction rule: reachable_carts.induct)
  case carts_init
  show ?case by (simp add: carts_valid_def)
next
  case (carts_get cs uid)
  then show ?case by (simp add: cart_get_valid)
next
  case (carts_add cs uid pid q cs')
  then show ?case by (blast intro: addOrUpdateItem_valid)
next
  case (carts_remove cs uid pid cs')
  then show ?case by (blast intro: removeItem_valid)
qed

text \<open>
  C10. In every state the cart operations can reach, every line item of every cart has
  quantity at least 1; adding or updating with a quantity below 1 is rejected with a
  validation error, and so is saving a cart that holds such a line item.
\<close>

theorem cart_quantities_at_least_one:
  assumes "reachable_carts cs"
  shows "(cs uid = Some its \<longrightarrow> (\<forall>it \<in> set its. 1 \<le> ci_quantity it))
       \<and> (q < 1 \<longrightarrow> addOrUpdateItem uid pid q cs = Inl ValidationError)
       \<and> (ci_quantity it' < 1 \<longrightarrow> Cart_save uid (its' @ [it']) cs = Inl ValidationError)"
  using reachable_carts_valid [OF assms]
  by (auto simp add: carts_valid_def list_all_iff cartItemSchema_valid_def addOrUpdateItem_def
      Cart_save_def)

theorem cart_quantities_at_least_one_witness:
  "reachable_carts ex_carts
   \<and> ex_carts 2 = Some [\<lparr> ci_product = 16, ci_quantity = 5 \<rparr>]
   \<and> list_all cartItemSchema_valid [\<lparr> ci_product = 16, ci_quantity = 5 \<rparr>]
   \<and> addOrUpdateItem 2 16 0 ex_carts = Inl ValidationError
   \<and> Cart_save 2 ([] @ [\<lparr> ci_product = 16, ci_quantity = - 1 \<rparr>]) ex_carts = Inl ValidationError"
proof -
  have s1: "addOrUpdateItem 2 16 2 Map.empty = Inr (Map.empty(2 \<mapsto> [\<lparr> ci_product = 16, ci_quantity = 2 \<rparr>]))"
    by (simp add: addOrUpdateItem_def cart_get_def Cart_save_def cartItemSchema_valid_def)
  have s2: "addOrUpdateItem 2 16 5 (Map.empty(2 \<mapsto> [\<lparr> ci_product = 16, ci_quantity = 2 \<rparr>])) = Inr ex_carts"
    by (simp add: addOrUpdateItem_def cart_get_def Cart_save_def cartItemSchema_valid_def ex_carts_def)
  have r: "reachable_carts ex_carts"
    by (rule carts_add [OF carts_add [OF carts_init s1] s2])
  have g: "ex_carts 2 = Some [\<lparr> ci_product = 16, ci_quantity = 5 \<rparr>]"
    by (simp add: ex_carts_def)
  show ?thesis
    using r g
      cart_quantities_at_least_one [OF r, of 2 "[\<lparr> ci_product = 16, ci_quantity = 5 \<rparr>]" 0 16
        "\<lparr> ci_product = 16, ci_quantity = - 1 \<rparr>" "[]"]
    by (simp add: cartItemSchema_valid_def)
qed

end
